theory Spec2Isabelle
  imports Main
begin

section \<open>AI Helpdesk: the two relay endpoints and the chat page\<close>

text \<open>
  The repository has two server routes (\<^verbatim>\<open>/api/chat\<close> and \<^verbatim>\<open>/api/vision\<close>), each a single
  \<^verbatim>\<open>POST\<close> handler whose whole body sits inside one \<^verbatim>\<open>try\<close>/\<^verbatim>\<open>catch\<close>, and one client page
  component \<^verbatim>\<open>Home\<close> with its event handlers. The model below follows the handlers line by
  line. Everything outside the repository (the model provider, the network, the browser's
  media and storage objects) appears as an explicit parameter or as a field of the state,
  and every provider call and every request the page sends is written to a log, so that
  "no provider call is made" is a statement about that log.
\<close>

text \<open>
  The page modelled is the one with the conversation history, local storage and screen
  sharing. The repository also holds an earlier copy of it (\<^verbatim>\<open>app/page.tsx\<close>) without
  those three; the image branch of its \<^verbatim>\<open>handleSend\<close> is the same text as the one modelled
  here.
\<close>

subsection \<open>JavaScript values used by the handlers\<close>

text \<open>
  A parsed JSON document, as \<^verbatim>\<open>await req.json()\<close> returns it. An object is the list of its
  properties, each name once.
\<close>

datatype json =
    JNull
  | JBool bool
  | JNum int
  | JStr string
  | JArr "json list"
  | JObj "(string \<times> json) list"

text \<open>
  A thrown value, as the \<^verbatim>\<open>catch (err: any)\<close> clauses read it: only \<^verbatim>\<open>err.message\<close> is used,
  and it may be undefined.
\<close>

record js_error =
  message :: "string option"

text \<open>The outcome of an awaited call: it rejects (throws) or resolves with a value.\<close>

datatype 'a attempt = Throws js_error | Returns 'a

text \<open>
  \<^verbatim>\<open>v || d\<close> on an optional string: \<^verbatim>\<open>undefined\<close>, \<^verbatim>\<open>null\<close> and the empty string are falsy.
\<close>

definition truthy :: "string option \<Rightarrow> bool" where
  "truthy v = (case v of None \<Rightarrow> False | Some s \<Rightarrow> s \<noteq> [])"

definition or_else :: "string option \<Rightarrow> string \<Rightarrow> string" where
  "or_else v d = (case v of None \<Rightarrow> d | Some s \<Rightarrow> if s = [] then d else s)"

text \<open>
  \<^verbatim>\<open>body.messages\<close>: reading a property of \<^verbatim>\<open>null\<close> throws a TypeError (the message is
  V8's); on an object it is the property's value or \<^verbatim>\<open>undefined\<close> (\<open>None\<close>); numbers,
  booleans, strings and arrays have no property of that name.
\<close>

definition null_property_error :: js_error where
  "null_property_error =
     \<lparr>message = Some ''Cannot read properties of null (reading 'messages')''\<rparr>"

fun messages_of :: "json \<Rightarrow> js_error + json option" where
  "messages_of JNull = Inl null_property_error"
| "messages_of (JObj kvs) = Inr (map_of kvs ''messages'')"
| "messages_of _ = Inr None"

fun isArray :: "json option \<Rightarrow> bool" where
  "isArray (Some (JArr _)) = True"
| "isArray _ = False"

fun elements :: "json option \<Rightarrow> json list" where
  "elements (Some (JArr xs)) = xs"
| "elements _ = []"

subsection \<open>The provider's chat-completion interface\<close>

text \<open>
  A multipart field is a string or a file; \<^verbatim>\<open>FormData.get\<close> returns the first entry of
  that name, or \<^verbatim>\<open>null\<close>.
\<close>

record Blob =
  blob_type :: string
  blob_data :: "nat list"

record File =
  file_name :: string
  file_blob :: Blob

datatype form_entry = FormString string | FormFile File

text \<open>
  The inline image reference \<^verbatim>\<open>data:<type>;base64,<payload>\<close>, kept as its two components
  (the MIME type and the bytes that are base64-encoded).
\<close>

datatype data_url = DataUrl string "nat list"

text \<open>
  The request to \<^verbatim>\<open>openai.chat.completions.create\<close>. The chat route forwards the
  caller's array elements as they are; the vision route builds a system turn and one user
  turn of two parts, whose text is the \<^verbatim>\<open>prompt\<close> entry (cast to string, unchecked).
\<close>

datatype content_part = TextPart form_entry | ImageUrlPart data_url

datatype api_message =
    Forwarded json
  | SystemTurn string
  | UserParts "content_part list"

record create_params =
  model :: string
  req_messages :: "api_message list"
  max_tokens :: nat

text \<open>
  The completion, with the shape the provider's client library declares:
  \<^verbatim>\<open>choices: Array<{message: {content: string | null}}>\<close>. The handlers guard the first
  choice and its message with \<^verbatim>\<open>?.\<close>, so both may be missing here.
\<close>

datatype completion_message = CompletionMessage (msg_content: "string option")

datatype choice = Choice (choice_message: "completion_message option")

datatype completion = Completion (choices: "choice list")

text \<open>\<^verbatim>\<open>response.choices[0]?.message?.content\<close>\<close>

fun first_content :: "completion \<Rightarrow> string option" where
  "first_content (Completion []) = None"
| "first_content (Completion (c # _)) =
     (case choice_message c of None \<Rightarrow> None | Some m \<Rightarrow> msg_content m)"

subsection \<open>Responses\<close>

datatype payload = ErrorJson string | ResultJson string

record http_response =
  status :: nat
  body :: payload

text \<open>The shared \<^verbatim>\<open>catch\<close> clause of both routes.\<close>

definition caught :: "js_error \<Rightarrow> http_response" where
  "caught err = \<lparr>status = 500, body = ErrorJson (or_else (message err) ''Unknown error'')\<rparr>"

definition system_prompt :: string where
  "system_prompt =
     ''You are a helpful IT support assistant for non-technical users. Explain things simply and step by step.''"

definition chat_fallback :: string where
  "chat_fallback = ''Sorry, I couldn't generate a response.''"

definition vision_fallback :: string where
  "vision_fallback = ''Sorry, I couldn't analyze the screenshot.''"

subsection \<open>\<^verbatim>\<open>POST /api/chat\<close>\<close>

definition chat_params :: "json list \<Rightarrow> create_params" where
  "chat_params msgs =
     \<lparr>model = ''gpt-4o'', req_messages = map Forwarded msgs, max_tokens = 500\<rparr>"

text \<open>
  The handler returns the response together with the list of provider calls it made.
  \<open>req_json\<close> is the outcome of \<^verbatim>\<open>await req.json()\<close>.
\<close>

definition chat_POST ::
  "(create_params \<Rightarrow> completion attempt) \<Rightarrow> json attempt \<Rightarrow> http_response \<times> create_params list"
where
  "chat_POST create req_json =
     (case req_json of
        Throws err \<Rightarrow> (caught err, [])
      | Returns body_json \<Rightarrow>
          (case messages_of body_json of
             Inl err \<Rightarrow> (caught err, [])
           | Inr messages \<Rightarrow>
               if \<not> isArray messages \<or> length (elements messages) = 0
               then (\<lparr>status = 400, body = ErrorJson ''No messages provided.''\<rparr>, [])
               else
                 (case create (chat_params (elements messages)) of
                    Throws err \<Rightarrow> (caught err, [chat_params (elements messages)])
                  | Returns response \<Rightarrow>
                      (\<lparr>status = 200,
                        body = ResultJson (or_else (first_content response) chat_fallback)\<rparr>,
                       [chat_params (elements messages)]))))"

subsection \<open>\<^verbatim>\<open>POST /api/vision\<close>\<close>

text \<open>\<^verbatim>\<open>!file || !(file instanceof Blob)\<close> is false exactly for a file entry.\<close>

fun no_image :: "form_entry option \<Rightarrow> bool" where
  "no_image (Some (FormFile _)) = False"
| "no_image _ = True"

text \<open>\<^verbatim>\<open>!prompt\<close>: \<^verbatim>\<open>null\<close> and the empty string are falsy, a file object is truthy.\<close>

fun no_prompt :: "form_entry option \<Rightarrow> bool" where
  "no_prompt None = True"
| "no_prompt (Some (FormString s)) = (s = [])"
| "no_prompt (Some (FormFile _)) = False"

definition vision_params :: "File \<Rightarrow> form_entry \<Rightarrow> create_params" where
  "vision_params file prompt =
     \<lparr>model = ''gpt-4o'',
      req_messages =
        [SystemTurn system_prompt,
         UserParts [TextPart prompt, ImageUrlPart (DataUrl (blob_type (file_blob file)) (blob_data (file_blob file)))]],
      max_tokens = 500\<rparr>"

text \<open>
  \<open>req_form\<close> is the outcome of \<^verbatim>\<open>await req.formData()\<close>. Past the two guards the
  image entry is a file and the prompt entry exists (lemma \<open>vision_guards_passed\<close>), so
  the last branch of the inner case is never taken.
\<close>

definition vision_POST ::
  "(create_params \<Rightarrow> completion attempt) \<Rightarrow> (string \<times> form_entry) list attempt
     \<Rightarrow> http_response \<times> create_params list"
where
  "vision_POST create req_form =
     (case req_form of
        Throws err \<Rightarrow> (caught err, [])
      | Returns formData \<Rightarrow>
          let file = map_of formData ''image'';
              prompt = map_of formData ''prompt''
          in
            if no_image file
            then (\<lparr>status = 400, body = ErrorJson ''No image uploaded.''\<rparr>, [])
            else if no_prompt prompt
            then (\<lparr>status = 400, body = ErrorJson ''No prompt provided.''\<rparr>, [])
            else
              (case (file, prompt) of
                 (Some (FormFile f), Some p) \<Rightarrow>
                   (case create (vision_params f p) of
                      Throws err \<Rightarrow> (caught err, [vision_params f p])
                    | Returns response \<Rightarrow>
                        (\<lparr>status = 200,
                          body = ResultJson (or_else (first_content response) vision_fallback)\<rparr>,
                         [vision_params f p]))
               | _ \<Rightarrow> (\<lparr>status = 400, body = ErrorJson ''No image uploaded.''\<rparr>, [])))"

subsection \<open>The page component: state\<close>

datatype sender = User | AI

text \<open>\<^verbatim>\<open>URL.createObjectURL(blob)\<close>: a local URL that stands for the blob.\<close>

datatype object_url = ObjectURL Blob

record Message =
  sender :: sender
  msg_text :: string
  imageUrl :: "object_url option"

datatype role = System | UserRole | Assistant

record OpenAIMessage =
  role :: role
  content :: string

text \<open>
  \<^verbatim>\<open>data = await res.json()\<close> as the handlers read it: an object whose \<^verbatim>\<open>result\<close> and
  \<^verbatim>\<open>error\<close> properties are strings or missing. Both routes answer with such an object in
  every branch. A body that is no object is not covered by this type: for the JSON value
  \<^verbatim>\<open>null\<close>, reading \<^verbatim>\<open>data.result\<close> throws, in \<^verbatim>\<open>handleSend\<close>'s text branch while the
  argument of \<^verbatim>\<open>setChatHistory\<close> is built, so that the \<^verbatim>\<open>catch\<close> runs and no assistant turn
  is set, and in every branch when React later runs the queued \<^verbatim>\<open>setMessages\<close> updater.
  What is proved below of a resolved request is proved of object bodies.
\<close>

record reply_json =
  result :: "string option"
  error :: "string option"

text \<open>The two requests the page sends, with their bodies.\<close>

datatype request =
    PostVision "(string \<times> form_entry) list"
  | PostChat json

text \<open>
  A media stream track: its ready state, how often the page has called \<^verbatim>\<open>stop()\<close> on it,
  and how often its source has been released (the step from live to ended, taken by
  \<^verbatim>\<open>stop()\<close> or by the user agent when the user ends the capture in the browser's own
  control).
\<close>

datatype ready_state = Live | Ended

record track =
  readyState :: ready_state
  stop_calls :: nat
  released :: nat

text \<open>
  A stream object in the browser's heap: its tracks and the \<^verbatim>\<open>ended\<close> listeners registered
  on its first video track. A listener is the closure \<^verbatim>\<open>() => handleStopScreenShare()\<close>
  of the render in which sharing was started; all it reads from that render is the value
  \<^verbatim>\<open>screenStream\<close> had there, so the closure is stored as that value.
\<close>

record media_stream =
  tracks :: "track list"
  ended_listeners :: "nat option list"

record video_element =
  srcObject :: "nat option"

text \<open>
  The component's state variables (\<^verbatim>\<open>image\<close> is \<open>image_file\<close>), the \<^verbatim>\<open>videoRef\<close> ref, and the
  parts of the browser the handlers act on: local storage, the heap of stream objects
  (addressed by number) and the log of requests sent with \<^verbatim>\<open>fetch\<close>.
\<close>

record page =
  messages :: "Message list"
  input :: string
  image_file :: "File option"
  isLoading :: bool
  screenStream :: "nat option"
  isScreenSharing :: bool
  chatHistory :: "OpenAIMessage list"
  videoRef :: "video_element option"
  localStorage :: "string \<rightharpoonup> string"
  streams :: "nat \<rightharpoonup> media_stream"
  sent :: "request list"

definition system_turn :: OpenAIMessage where
  "system_turn = \<lparr>role = System, content = system_prompt\<rparr>"

text \<open>The state of a freshly loaded page over a given local storage.\<close>

definition initial_page :: "(string \<rightharpoonup> string) \<Rightarrow> page" where
  "initial_page storage =
     \<lparr>messages = [], input = [], image_file = None, isLoading = False,
      screenStream = None, isScreenSharing = False, chatHistory = [system_turn],
      videoRef = None, localStorage = storage, streams = Map.empty, sent = []\<rparr>"

subsection \<open>Persistence\<close>

definition messages_key :: string where
  "messages_key = ''ai-helpdesk-messages''"

definition chatHistory_key :: string where
  "chatHistory_key = ''ai-helpdesk-chatHistory''"

text \<open>
  \<^verbatim>\<open>JSON.stringify\<close> and \<^verbatim>\<open>JSON.parse\<close> at the two types stored. They belong to the
  platform, so they are parameters; \<^verbatim>\<open>JSON.parse\<close> throws on a malformed text.
\<close>

record json_codec =
  stringify_messages :: "Message list \<Rightarrow> string"
  stringify_chatHistory :: "OpenAIMessage list \<Rightarrow> string"
  parse_messages :: "string \<Rightarrow> Message list attempt"
  parse_chatHistory :: "string \<Rightarrow> OpenAIMessage list attempt"

text \<open>
  The mount effect. \<^verbatim>\<open>if (savedMessages)\<close> skips a missing entry and an empty string; an
  exception of \<^verbatim>\<open>JSON.parse\<close> is not caught.
\<close>

definition restore_messages :: "json_codec \<Rightarrow> page \<Rightarrow> page attempt" where
  "restore_messages codec w =
     (case localStorage w messages_key of
        None \<Rightarrow> Returns w
      | Some savedMessages \<Rightarrow>
          if savedMessages = [] then Returns w
          else (case parse_messages codec savedMessages of
                  Throws err \<Rightarrow> Throws err
                | Returns ms \<Rightarrow> Returns (w\<lparr>messages := ms\<rparr>)))"

definition restore_chatHistory :: "json_codec \<Rightarrow> page \<Rightarrow> page attempt" where
  "restore_chatHistory codec w =
     (case localStorage w chatHistory_key of
        None \<Rightarrow> Returns w
      | Some savedChatHistory \<Rightarrow>
          if savedChatHistory = [] then Returns w
          else (case parse_chatHistory codec savedChatHistory of
                  Throws err \<Rightarrow> Throws err
                | Returns h \<Rightarrow> Returns (w\<lparr>chatHistory := h\<rparr>)))"

definition mount_effect :: "json_codec \<Rightarrow> page \<Rightarrow> page attempt" where
  "mount_effect codec w =
     (case restore_messages codec w of
        Throws err \<Rightarrow> Throws err
      | Returns w1 \<Rightarrow> restore_chatHistory codec w1)"

text \<open>A reload: the component starts again from its initial state over the same storage.\<close>

definition reload :: "json_codec \<Rightarrow> page \<Rightarrow> page attempt" where
  "reload codec w = mount_effect codec (initial_page (localStorage w))"

text \<open>
  The two save effects, which React runs after a render in which \<^verbatim>\<open>messages\<close> or
  \<^verbatim>\<open>chatHistory\<close> has changed.
\<close>

definition save_messages :: "json_codec \<Rightarrow> page \<Rightarrow> page" where
  "save_messages codec w =
     w\<lparr>localStorage := (localStorage w)(messages_key \<mapsto> stringify_messages codec (messages w))\<rparr>"

definition save_chatHistory :: "json_codec \<Rightarrow> page \<Rightarrow> page" where
  "save_chatHistory codec w =
     w\<lparr>localStorage :=
         (localStorage w)(chatHistory_key \<mapsto> stringify_chatHistory codec (chatHistory w))\<rparr>"

definition save_effects :: "json_codec \<Rightarrow> page \<Rightarrow> page" where
  "save_effects codec w = save_chatHistory codec (save_messages codec w)"

definition handleClearChat :: "page \<Rightarrow> page" where
  "handleClearChat w =
     w\<lparr>messages := [],
       chatHistory := [system_turn],
       localStorage := (localStorage w)(messages_key := None, chatHistory_key := None)\<rparr>"

subsection \<open>Sending a message\<close>

definition default_prompt :: string where
  "default_prompt = ''Please help me with this issue.''"

definition vision_error_text :: string where
  "vision_error_text = ''Sorry, there was an error analyzing your screenshot.''"

definition chat_error_text :: string where
  "chat_error_text = ''Sorry, there was an error getting a response from the AI.''"

text \<open>\<^verbatim>\<open>data.result || data.error || fallback\<close>\<close>

definition reply_text :: "reply_json \<Rightarrow> string \<Rightarrow> string" where
  "reply_text data fallback = or_else (result data) (or_else (error data) fallback)"

definition ai_message :: "string \<Rightarrow> Message" where
  "ai_message t = \<lparr>sender = AI, msg_text = t, imageUrl = None\<rparr>"

text \<open>The multipart body both image paths build.\<close>

definition vision_form :: "File \<Rightarrow> string \<Rightarrow> (string \<times> form_entry) list" where
  "vision_form img inp =
     [(''image'', FormFile img),
      (''prompt'', FormString (or_else (Some inp) default_prompt))]"

text \<open>
  The \<^verbatim>\<open>try\<close>/\<^verbatim>\<open>catch\<close> around the call of \<^verbatim>\<open>/api/vision\<close>, shared word for word by
  \<^verbatim>\<open>handleSend\<close> and the screenshot capture. \<open>fetch\<close> is the network and the server behind
  it: the request either fails (\<^verbatim>\<open>fetch\<close> rejects or the body is not JSON) or yields the
  parsed body.
\<close>

definition send_vision ::
  "(request \<Rightarrow> reply_json attempt) \<Rightarrow> File \<Rightarrow> string \<Rightarrow> page \<Rightarrow> page" where
  "send_vision fetch img inp w =
     (let formData = vision_form img inp;
          w1 = w\<lparr>sent := sent w @ [PostVision formData]\<rparr>
      in
        case fetch (PostVision formData) of
          Returns data \<Rightarrow>
            w1\<lparr>messages := messages w1 @ [ai_message (reply_text data vision_fallback)],
               isLoading := False\<rparr>
        | Throws err \<Rightarrow>
            w1\<lparr>messages := messages w1 @ [ai_message vision_error_text],
               isLoading := False\<rparr>)"

text \<open>\<^verbatim>\<open>JSON.stringify({ messages: newHistory })\<close>, as the document it denotes.\<close>

fun role_name :: "role \<Rightarrow> string" where
  "role_name System = ''system''"
| "role_name UserRole = ''user''"
| "role_name Assistant = ''assistant''"

definition json_of_turn :: "OpenAIMessage \<Rightarrow> json" where
  "json_of_turn m = JObj [(''role'', JStr (role_name (role m))), (''content'', JStr (content m))]"

definition chat_body :: "OpenAIMessage list \<Rightarrow> json" where
  "chat_body history = JObj [(''messages'', JArr (map json_of_turn history))]"

text \<open>
  \<^verbatim>\<open>handleSend\<close>, run from its first line to its last with the outcome of its one request.
  \<^verbatim>\<open>input\<close>, \<^verbatim>\<open>image\<close> and \<^verbatim>\<open>chatHistory\<close> are the values of the render the handler belongs
  to, which are the current ones when the user acts.
\<close>

definition handleSend :: "(request \<Rightarrow> reply_json attempt) \<Rightarrow> page \<Rightarrow> page" where
  "handleSend fetch w =
     (if input w = [] \<and> image_file w = None then w
      else
        let newMsg = \<lparr>sender = User, msg_text = input w,
                      imageUrl = map_option (\<lambda>f. ObjectURL (file_blob f)) (image_file w)\<rparr>;
            w1 = w\<lparr>messages := messages w @ [newMsg], input := [], image_file := None,
                   isLoading := True\<rparr>
        in
          case image_file w of
            Some img \<Rightarrow> send_vision fetch img (input w) w1
          | None \<Rightarrow>
              let newHistory = chatHistory w @ [\<lparr>role = UserRole, content = input w\<rparr>];
                  w2 = w1\<lparr>chatHistory := newHistory,
                         sent := sent w1 @ [PostChat (chat_body newHistory)]\<rparr>
              in
                case fetch (PostChat (chat_body newHistory)) of
                  Returns data \<Rightarrow>
                    w2\<lparr>messages := messages w2 @ [ai_message (reply_text data chat_fallback)],
                       chatHistory :=
                         newHistory @ [\<lparr>role = Assistant, content = or_else (result data) []\<rparr>],
                       isLoading := False\<rparr>
                | Throws err \<Rightarrow>
                    w2\<lparr>messages := messages w2 @ [ai_message chat_error_text],
                       isLoading := False\<rparr>)"

definition handleImageChange :: "File list option \<Rightarrow> page \<Rightarrow> page" where
  "handleImageChange files w =
     (case files of
        Some (f # _) \<Rightarrow> w\<lparr>image_file := Some f\<rparr>
      | _ \<Rightarrow> w)"

subsection \<open>Screen sharing\<close>

definition live_track :: track where
  "live_track = \<lparr>readyState = Live, stop_calls = 0, released = 0\<rparr>"

text \<open>
  \<^verbatim>\<open>track.stop()\<close> ends a live track and does nothing to an ended one; the user agent
  ending a track does the same without a call from the page and then fires \<^verbatim>\<open>ended\<close>
  (\<^verbatim>\<open>stop()\<close> fires no event).
\<close>

definition stop_track :: "track \<Rightarrow> track" where
  "stop_track t =
     (if readyState t = Live
      then t\<lparr>readyState := Ended, stop_calls := stop_calls t + 1, released := released t + 1\<rparr>
      else t\<lparr>stop_calls := stop_calls t + 1\<rparr>)"

definition agent_end :: "track \<Rightarrow> track" where
  "agent_end t =
     (if readyState t = Live
      then t\<lparr>readyState := Ended, released := released t + 1\<rparr>
      else t)"

text \<open>
  \<^verbatim>\<open>handleStopScreenShare\<close>. Its first argument is the value of \<^verbatim>\<open>screenStream\<close> in the render
  whose closure is being run; the state setters and the ref act on the current state.
\<close>

definition stop_all_tracks :: "nat \<Rightarrow> page \<Rightarrow> page" where
  "stop_all_tracks sid w =
     (case streams w sid of
        None \<Rightarrow> w
      | Some st \<Rightarrow> w\<lparr>streams := (streams w)(sid \<mapsto> st\<lparr>tracks := map stop_track (tracks st)\<rparr>)\<rparr>)"

definition handleStopScreenShare :: "nat option \<Rightarrow> page \<Rightarrow> page" where
  "handleStopScreenShare screenStream_seen w =
     (let w1 = (case screenStream_seen of Some sid \<Rightarrow> stop_all_tracks sid w | None \<Rightarrow> w)
      in w1\<lparr>screenStream := None,
            isScreenSharing := False,
            videoRef := map_option (\<lambda>v. v\<lparr>srcObject := None\<rparr>) (videoRef w1)\<rparr>)"

text \<open>
  \<^verbatim>\<open>handleStartScreenShare\<close>. \<^verbatim>\<open>getDisplayMedia\<close> rejects (the \<^verbatim>\<open>catch\<close> ignores it) or
  resolves with a new stream \<open>sid\<close> of \<open>n\<close> live video tracks. With no video track,
  \<^verbatim>\<open>getVideoTracks()[0].addEventListener\<close> throws into the same \<^verbatim>\<open>catch\<close> after the state has
  been set, and no listener is registered.
\<close>

definition handleStartScreenShare :: "(nat \<times> nat) attempt \<Rightarrow> page \<Rightarrow> page" where
  "handleStartScreenShare getDisplayMedia w =
     (case getDisplayMedia of
        Throws err \<Rightarrow> w
      | Returns (sid, n) \<Rightarrow>
          let listener = screenStream w;
              stream = \<lparr>tracks = replicate n live_track, ended_listeners = []\<rparr>;
              w1 = w\<lparr>streams := (streams w)(sid \<mapsto> stream),
                     screenStream := Some sid,
                     isScreenSharing := True,
                     videoRef := map_option (\<lambda>v. v\<lparr>srcObject := Some sid\<rparr>) (videoRef w)\<rparr>
          in
            if n = 0 then w1
            else w1\<lparr>streams :=
                      (streams w1)(sid \<mapsto> stream\<lparr>ended_listeners := [listener]\<rparr>)\<rparr>)"

text \<open>The "Stop Sharing" button runs the handler of the current render.\<close>

definition click_stop_sharing :: "page \<Rightarrow> page" where
  "click_stop_sharing w = handleStopScreenShare (screenStream w) w"

text \<open>
  The browser's own control ends the capture: the user agent ends the stream's tracks and
  fires \<^verbatim>\<open>ended\<close>, which runs the registered listeners.
\<close>

definition stream_ended :: "nat \<Rightarrow> page \<Rightarrow> page" where
  "stream_ended sid w =
     (case streams w sid of
        None \<Rightarrow> w
      | Some st \<Rightarrow>
          fold handleStopScreenShare (ended_listeners st)
            (w\<lparr>streams := (streams w)(sid \<mapsto> st\<lparr>tracks := map agent_end (tracks st)\<rparr>)\<rparr>))"

text \<open>
  \<^verbatim>\<open>handleCaptureScreenShotFromStream\<close>. \<open>frame\<close> is what the canvas yields: \<open>None\<close> when
  \<^verbatim>\<open>getContext\<close> or \<^verbatim>\<open>toBlob\<close> gives \<^verbatim>\<open>null\<close>, otherwise the PNG blob.
\<close>

definition handleCaptureScreenShotFromStream ::
  "(request \<Rightarrow> reply_json attempt) \<Rightarrow> Blob option \<Rightarrow> page \<Rightarrow> page" where
  "handleCaptureScreenShotFromStream fetch frame w =
     (if videoRef w = None then w
      else
        case frame of
          None \<Rightarrow> w
        | Some blob \<Rightarrow>
            let w1 = w\<lparr>isLoading := True,
                       messages := messages w @
                         [\<lparr>sender = User,
                           msg_text = or_else (Some (input w)) ''(Screenshot from screen share)'',
                           imageUrl = Some (ObjectURL blob)\<rparr>]\<rparr>
            in send_vision fetch \<lparr>file_name = ''screenshot.png'', file_blob = blob\<rparr> (input w) w1)"

text \<open>
  The sharing controls are drawn from \<^verbatim>\<open>isScreenSharing\<close> and the handlers act on
  \<^verbatim>\<open>screenStream\<close>; the two agree when the flag is set exactly while a stream is held.
\<close>

definition sharing_consistent :: "page \<Rightarrow> bool" where
  "sharing_consistent w = (isScreenSharing w = (screenStream w \<noteq> None))"

subsection \<open>The message shape the specification names\<close>

text \<open>
  The specification's ProviderMessage: an object \<^verbatim>\<open>{role, content}\<close> whose role is one of
  system, user, assistant and whose content is a string. No handler tests it; it is written
  down here from the specification's words, to state what the chat route does not check.
\<close>

definition spec_provider_message_shaped :: "json \<Rightarrow> bool" where
  "spec_provider_message_shaped j =
     (case j of
        JObj kvs \<Rightarrow>
          (case (map_of kvs ''role'', map_of kvs ''content'') of
             (Some (JStr r), Some (JStr c)) \<Rightarrow> r \<in> set [''system'', ''user'', ''assistant'']
           | _ \<Rightarrow> False)
      | _ \<Rightarrow> False)"

section \<open>Properties of the relay endpoints\<close>

lemma no_image_iff: "no_image e \<longleftrightarrow> e = None \<or> (\<exists>s. e = Some (FormString s))"
  by (cases e rule: no_image.cases) auto

lemma no_prompt_iff: "no_prompt e \<longleftrightarrow> e = None \<or> e = Some (FormString [])"
  by (cases e rule: no_prompt.cases) auto

lemma vision_guards_passed:
  "\<not> no_image img \<Longrightarrow> \<not> no_prompt prompt \<Longrightarrow> \<exists>f p. img = Some (FormFile f) \<and> prompt = Some p"
  by (cases img rule: no_image.cases; cases prompt rule: no_prompt.cases) auto

lemma or_else_nonempty: "d \<noteq> [] \<Longrightarrow> or_else v d \<noteq> []"
  by (simp add: or_else_def split: option.splits)

lemma chat_fallback_nonempty: "chat_fallback \<noteq> []"
  by (simp add: chat_fallback_def)

lemma vision_fallback_nonempty: "vision_fallback \<noteq> []"
  by (simp add: vision_fallback_def)

text \<open>Past the guards each route makes exactly one provider call and relays its outcome.\<close>

lemma chat_POST_valid:
  assumes "messages_of body_json = Inr m" "isArray m" "elements m \<noteq> []"
  shows "chat_POST create (Returns body_json) =
           (case create (chat_params (elements m)) of
              Throws err \<Rightarrow> (caught err, [chat_params (elements m)])
            | Returns response \<Rightarrow>
                (\<lparr>status = 200,
                  body = ResultJson (or_else (first_content response) chat_fallback)\<rparr>,
                 [chat_params (elements m)]))"
  using assms by (simp add: chat_POST_def)

lemma vision_POST_valid:
  assumes "map_of formData ''image'' = Some (FormFile f)"
    and "map_of formData ''prompt'' = Some p" "\<not> no_prompt (Some p)"
  shows "vision_POST create (Returns formData) =
           (case create (vision_params f p) of
              Throws err \<Rightarrow> (caught err, [vision_params f p])
            | Returns response \<Rightarrow>
                (\<lparr>status = 200,
                  body = ResultJson (or_else (first_content response) vision_fallback)\<rparr>,
                 [vision_params f p]))"
  using assms by (simp add: vision_POST_def)

subsection \<open>C1: the chat route's validation\<close>

text \<open>
  C1, as stated, says that a request to the chat route whose body lacks \<^verbatim>\<open>messages\<close>, or
  whose \<^verbatim>\<open>messages\<close> is an empty array, or whose \<^verbatim>\<open>messages\<close> elements are not
  ProviderMessage-shaped, gets a 400 response and causes no provider call. The route does
  not look at the elements: the body \<^verbatim>\<open>{"messages": [42]}\<close> passes the guard, the provider
  is called with the element forwarded as it is, and the answer is a 200. A body that is
  the JSON value \<^verbatim>\<open>null\<close> has no \<^verbatim>\<open>messages\<close> property either; reading it throws, and the
  answer is the 500 of the \<^verbatim>\<open>catch\<close> clause.
\<close>

theorem chat_forwards_unshaped_elements:
  "\<not> list_all spec_provider_message_shaped [JNum 42] \<and>
   chat_POST (\<lambda>p. Returns (Completion [])) (Returns (JObj [(''messages'', JArr [JNum 42])])) =
     (\<lparr>status = 200, body = ResultJson ''Sorry, I couldn't generate a response.''\<rparr>,
      [\<lparr>model = ''gpt-4o'', req_messages = [Forwarded (JNum 42)], max_tokens = 500\<rparr>]) \<and>
   status (fst (chat_POST (\<lambda>p. Returns (Completion [])) (Returns JNull))) = 500"
  by (simp add: chat_POST_def spec_provider_message_shaped_def or_else_def caught_def
      null_property_error_def chat_params_def chat_fallback_def)

text \<open>
  C1, amended: for every request whose body is a JSON value other than \<^verbatim>\<open>null\<close> and whose
  \<^verbatim>\<open>messages\<close> property is missing, is not an array, or is an empty array, the chat route
  returns 400 with \<^verbatim>\<open>{error: "No messages provided."}\<close> and makes no provider call. The
  elements of a non-empty array are not inspected: whatever their shape, they are forwarded
  to the provider in exactly one call.
\<close>

theorem chat_rejects_missing_or_empty_messages:
  assumes "messages_of body_json = Inr m"
  shows "(\<not> isArray m \<or> elements m = [] \<longrightarrow>
            chat_POST create (Returns body_json) =
              (\<lparr>status = 400, body = ErrorJson ''No messages provided.''\<rparr>, [])) \<and>
         (isArray m \<and> elements m \<noteq> [] \<longrightarrow>
            snd (chat_POST create (Returns body_json)) =
              [\<lparr>model = ''gpt-4o'', req_messages = map Forwarded (elements m),
                max_tokens = 500\<rparr>])"
  using assms by (auto simp: chat_POST_def chat_params_def split: attempt.splits)

theorem chat_rejects_missing_or_empty_messages_witness:
  "messages_of (JObj [(''model'', JStr ''gpt-4o'')]) = Inr None \<and>
   \<not> isArray None \<and>
   chat_POST (\<lambda>p. Returns (Completion [])) (Returns (JObj [(''model'', JStr ''gpt-4o'')])) =
     (\<lparr>status = 400, body = ErrorJson ''No messages provided.''\<rparr>, []) \<and>
   messages_of (JObj [(''messages'', JArr [])]) = Inr (Some (JArr [])) \<and>
   elements (Some (JArr [])) = [] \<and>
   chat_POST (\<lambda>p. Returns (Completion [])) (Returns (JObj [(''messages'', JArr [])])) =
     (\<lparr>status = 400, body = ErrorJson ''No messages provided.''\<rparr>, []) \<and>
   messages_of (JObj [(''messages'', JArr [JStr ''hi''])]) = Inr (Some (JArr [JStr ''hi''])) \<and>
   isArray (Some (JArr [JStr ''hi''])) \<and>
   snd (chat_POST (\<lambda>p. Returns (Completion [])) (Returns (JObj [(''messages'', JArr [JStr ''hi''])]))) =
     [\<lparr>model = ''gpt-4o'', req_messages = [Forwarded (JStr ''hi'')], max_tokens = 500\<rparr>]"
proof -
  have a: "messages_of (JObj [(''model'', JStr ''gpt-4o'')]) = Inr None" by simp
  have b: "messages_of (JObj [(''messages'', JArr [])]) = Inr (Some (JArr []))" by simp
  have c: "messages_of (JObj [(''messages'', JArr [JStr ''hi''])]) = Inr (Some (JArr [JStr ''hi'']))"
    by simp
  show ?thesis
    using a b c
      chat_rejects_missing_or_empty_messages [OF a, of "\<lambda>p. Returns (Completion [])"]
      chat_rejects_missing_or_empty_messages [OF b, of "\<lambda>p. Returns (Completion [])"]
      chat_rejects_missing_or_empty_messages [OF c, of "\<lambda>p. Returns (Completion [])"]
    by simp
qed

subsection \<open>C2: the vision route's validation\<close>

text \<open>
  C2, as stated, says that a multipart request whose \<^verbatim>\<open>image\<close> field is missing or not a
  blob gets 400 with \<^verbatim>\<open>{error: "No image uploaded."}\<close>, that one whose \<^verbatim>\<open>prompt\<close> field is
  missing or empty gets 400 with \<^verbatim>\<open>{error: "No prompt provided."}\<close>, and that neither causes
  a provider call. The route tests the image first: a form with neither field has a
  missing prompt, and its answer is the image message, not the prompt message.
\<close>

theorem vision_both_missing_reports_image:
  "map_of ([] :: (string \<times> form_entry) list) ''prompt'' = None \<and>
   vision_POST (\<lambda>p. Returns (Completion [])) (Returns []) =
     (\<lparr>status = 400, body = ErrorJson ''No image uploaded.''\<rparr>, []) \<and>
   body (fst (vision_POST (\<lambda>p. Returns (Completion [])) (Returns []))) \<noteq>
     ErrorJson ''No prompt provided.''"
  by (simp add: vision_POST_def)

text \<open>
  C2, amended: for every multipart request to the vision route, if the \<^verbatim>\<open>image\<close> field is
  missing or is not a blob (it is a string) the route returns 400 with
  \<^verbatim>\<open>{error: "No image uploaded."}\<close>, whatever the prompt; if the \<^verbatim>\<open>image\<close> field is a blob and
  the \<^verbatim>\<open>prompt\<close> field is missing or the empty string it returns 400 with
  \<^verbatim>\<open>{error: "No prompt provided."}\<close>. In both cases no provider call is made.
\<close>

theorem vision_rejects_missing_fields:
  "((map_of formData ''image'' = None \<or>
     (\<exists>s. map_of formData ''image'' = Some (FormString s))) \<longrightarrow>
      vision_POST create (Returns formData) =
        (\<lparr>status = 400, body = ErrorJson ''No image uploaded.''\<rparr>, [])) \<and>
   (((\<exists>f. map_of formData ''image'' = Some (FormFile f)) \<and>
     (map_of formData ''prompt'' = None \<or> map_of formData ''prompt'' = Some (FormString []))) \<longrightarrow>
      vision_POST create (Returns formData) =
        (\<lparr>status = 400, body = ErrorJson ''No prompt provided.''\<rparr>, []))"
  by (auto simp: vision_POST_def)

theorem vision_rejects_missing_fields_witness:
  "map_of [(''prompt'', FormString ''what is this?'')] ''image'' = None \<and>
   vision_POST (\<lambda>p. Returns (Completion []))
       (Returns [(''prompt'', FormString ''what is this?'')]) =
     (\<lparr>status = 400, body = ErrorJson ''No image uploaded.''\<rparr>, []) \<and>
   map_of [(''image'',
            FormFile \<lparr>file_name = ''a.png'',
                      file_blob = \<lparr>blob_type = ''image/png'', blob_data = [137, 80]\<rparr>\<rparr>),
           (''prompt'', FormString [])] ''prompt'' = Some (FormString []) \<and>
   vision_POST (\<lambda>p. Returns (Completion []))
       (Returns [(''image'',
                  FormFile \<lparr>file_name = ''a.png'',
                            file_blob = \<lparr>blob_type = ''image/png'', blob_data = [137, 80]\<rparr>\<rparr>),
                 (''prompt'', FormString [])]) =
     (\<lparr>status = 400, body = ErrorJson ''No prompt provided.''\<rparr>, [])"
  using
    vision_rejects_missing_fields
      [of "[(''prompt'', FormString ''what is this?'')]" "\<lambda>p. Returns (Completion [])"]
    vision_rejects_missing_fields
      [of "[(''image'',
             FormFile \<lparr>file_name = ''a.png'',
                       file_blob = \<lparr>blob_type = ''image/png'', blob_data = [137, 80]\<rparr>\<rparr>),
            (''prompt'', FormString [])]" "\<lambda>p. Returns (Completion [])"]
  by simp

subsection \<open>C3: a successful provider call\<close>

text \<open>
  C3: for every valid request to either route (a non-empty \<^verbatim>\<open>messages\<close> array; an image blob
  and a non-empty prompt) on which the provider call succeeds, the route makes that one call
  and returns 200 with \<^verbatim>\<open>{result: text}\<close>, where the text is the content of the first
  choice's message, or the route's fixed fallback string when that content is absent
  (missing, \<^verbatim>\<open>null\<close> or empty); so the \<^verbatim>\<open>result\<close> field is never empty.
\<close>

theorem relay_success_result:
  "(messages_of body_json = Inr m \<and> isArray m \<and> elements m \<noteq> [] \<and>
    create (chat_params (elements m)) = Returns r \<longrightarrow>
      chat_POST create (Returns body_json) =
        (\<lparr>status = 200,
          body = ResultJson
            (case first_content r of
               None \<Rightarrow> ''Sorry, I couldn't generate a response.''
             | Some c \<Rightarrow> if c = [] then ''Sorry, I couldn't generate a response.'' else c)\<rparr>,
         [chat_params (elements m)]) \<and>
      (case first_content r of
         None \<Rightarrow> ''Sorry, I couldn't generate a response.''
       | Some c \<Rightarrow> if c = [] then ''Sorry, I couldn't generate a response.'' else c) \<noteq> []) \<and>
   (map_of formData ''image'' = Some (FormFile f) \<and> map_of formData ''prompt'' = Some p \<and>
    \<not> no_prompt (Some p) \<and> create' (vision_params f p) = Returns r' \<longrightarrow>
      vision_POST create' (Returns formData) =
        (\<lparr>status = 200,
          body = ResultJson
            (case first_content r' of
               None \<Rightarrow> ''Sorry, I couldn't analyze the screenshot.''
             | Some c \<Rightarrow> if c = [] then ''Sorry, I couldn't analyze the screenshot.'' else c)\<rparr>,
         [vision_params f p]) \<and>
      (case first_content r' of
         None \<Rightarrow> ''Sorry, I couldn't analyze the screenshot.''
       | Some c \<Rightarrow> if c = [] then ''Sorry, I couldn't analyze the screenshot.'' else c) \<noteq> [])"
proof -
  have chat_text: "or_else v chat_fallback =
      (case v of
         None \<Rightarrow> ''Sorry, I couldn't generate a response.''
       | Some c \<Rightarrow> if c = [] then ''Sorry, I couldn't generate a response.'' else c)" for v
    by (simp add: or_else_def chat_fallback_def)
  have vision_text: "or_else v vision_fallback =
      (case v of
         None \<Rightarrow> ''Sorry, I couldn't analyze the screenshot.''
       | Some c \<Rightarrow> if c = [] then ''Sorry, I couldn't analyze the screenshot.'' else c)" for v
    by (simp add: or_else_def vision_fallback_def)
  have chat_ne: "or_else v chat_fallback \<noteq> []" for v
    by (rule or_else_nonempty [OF chat_fallback_nonempty])
  have vision_ne: "or_else v vision_fallback \<noteq> []" for v
    by (rule or_else_nonempty [OF vision_fallback_nonempty])
  show ?thesis
    using chat_ne [of "first_content r"] vision_ne [of "first_content r'"]
    by (simp add: chat_POST_valid vision_POST_valid chat_text vision_text)
qed

theorem relay_success_result_witness:
  "messages_of (JObj [(''messages'',
       JArr [JObj [(''role'', JStr ''user''), (''content'', JStr ''printer not working'')]])]) =
     Inr (Some (JArr [JObj [(''role'', JStr ''user''),
                            (''content'', JStr ''printer not working'')]])) \<and>
   isArray (Some (JArr [JObj [(''role'', JStr ''user''),
                              (''content'', JStr ''printer not working'')]])) \<and>
   chat_POST (\<lambda>p. Returns (Completion [Choice (Some (CompletionMessage (Some ''Restart it.'')))]))
     (Returns (JObj [(''messages'',
        JArr [JObj [(''role'', JStr ''user''), (''content'', JStr ''printer not working'')]])])) =
     (\<lparr>status = 200, body = ResultJson ''Restart it.''\<rparr>,
      [chat_params [JObj [(''role'', JStr ''user''),
                          (''content'', JStr ''printer not working'')]]]) \<and>
   vision_POST (\<lambda>p. Returns (Completion [Choice (Some (CompletionMessage None))]))
     (Returns [(''image'',
                FormFile \<lparr>file_name = ''a.png'',
                          file_blob = \<lparr>blob_type = ''image/png'', blob_data = [137, 80]\<rparr>\<rparr>),
               (''prompt'', FormString ''what is this?'')]) =
     (\<lparr>status = 200, body = ResultJson ''Sorry, I couldn't analyze the screenshot.''\<rparr>,
      [vision_params
         \<lparr>file_name = ''a.png'',
          file_blob = \<lparr>blob_type = ''image/png'', blob_data = [137, 80]\<rparr>\<rparr>
         (FormString ''what is this?'')])"
  using relay_success_result
    [of "JObj [(''messages'',
          JArr [JObj [(''role'', JStr ''user''), (''content'', JStr ''printer not working'')]])]"
        "Some (JArr [JObj [(''role'', JStr ''user''),
                           (''content'', JStr ''printer not working'')]])"
        "\<lambda>p. Returns (Completion [Choice (Some (CompletionMessage (Some ''Restart it.'')))])"
        "Completion [Choice (Some (CompletionMessage (Some ''Restart it.'')))]"
        "[(''image'',
           FormFile \<lparr>file_name = ''a.png'',
                     file_blob = \<lparr>blob_type = ''image/png'', blob_data = [137, 80]\<rparr>\<rparr>),
          (''prompt'', FormString ''what is this?'')]"
        "\<lparr>file_name = ''a.png'',
          file_blob = \<lparr>blob_type = ''image/png'', blob_data = [137, 80]\<rparr>\<rparr>"
        "FormString ''what is this?''"
        "\<lambda>p. Returns (Completion [Choice (Some (CompletionMessage None))])"
        "Completion [Choice (Some (CompletionMessage None))]"]
  by simp

subsection \<open>C4: a failing provider call\<close>

text \<open>
  C4: for every request to either route on which the provider call throws, the exception
  is caught: the route returns a 500 response whose body carries the exception's message,
  or \<^verbatim>\<open>"Unknown error"\<close> when the message is absent (undefined or empty). The handler's
  result is a response in every case, so nothing propagates to the caller.
\<close>

theorem relay_provider_failure:
  "(messages_of body_json = Inr m \<and> isArray m \<and> elements m \<noteq> [] \<and>
    create (chat_params (elements m)) = Throws err \<longrightarrow>
      chat_POST create (Returns body_json) =
        (\<lparr>status = 500,
          body = ErrorJson (case message err of
                              None \<Rightarrow> ''Unknown error''
                            | Some t \<Rightarrow> if t = [] then ''Unknown error'' else t)\<rparr>,
         [chat_params (elements m)])) \<and>
   (map_of formData ''image'' = Some (FormFile f) \<and> map_of formData ''prompt'' = Some p \<and>
    \<not> no_prompt (Some p) \<and> create' (vision_params f p) = Throws err' \<longrightarrow>
      vision_POST create' (Returns formData) =
        (\<lparr>status = 500,
          body = ErrorJson (case message err' of
                              None \<Rightarrow> ''Unknown error''
                            | Some t \<Rightarrow> if t = [] then ''Unknown error'' else t)\<rparr>,
         [vision_params f p]))"
  by (simp add: chat_POST_valid vision_POST_valid caught_def or_else_def)

theorem relay_provider_failure_witness:
  "messages_of (JObj [(''messages'', JArr [JStr ''hi''])]) = Inr (Some (JArr [JStr ''hi''])) \<and>
   isArray (Some (JArr [JStr ''hi''])) \<and>
   chat_POST (\<lambda>p. Throws \<lparr>message = Some ''Connection error.''\<rparr>)
     (Returns (JObj [(''messages'', JArr [JStr ''hi''])])) =
     (\<lparr>status = 500, body = ErrorJson ''Connection error.''\<rparr>, [chat_params [JStr ''hi'']]) \<and>
   vision_POST (\<lambda>p. Throws \<lparr>message = None\<rparr>)
     (Returns [(''image'',
                FormFile \<lparr>file_name = ''a.png'',
                          file_blob = \<lparr>blob_type = ''image/png'', blob_data = [137, 80]\<rparr>\<rparr>),
               (''prompt'', FormString ''what is this?'')]) =
     (\<lparr>status = 500, body = ErrorJson ''Unknown error''\<rparr>,
      [vision_params
         \<lparr>file_name = ''a.png'',
          file_blob = \<lparr>blob_type = ''image/png'', blob_data = [137, 80]\<rparr>\<rparr>
         (FormString ''what is this?'')])"
  using relay_provider_failure
    [of "JObj [(''messages'', JArr [JStr ''hi''])]" "Some (JArr [JStr ''hi''])"
        "\<lambda>p. Throws \<lparr>message = Some ''Connection error.''\<rparr>"
        "\<lparr>message = Some ''Connection error.''\<rparr>"
        "[(''image'',
           FormFile \<lparr>file_name = ''a.png'',
                     file_blob = \<lparr>blob_type = ''image/png'', blob_data = [137, 80]\<rparr>\<rparr>),
          (''prompt'', FormString ''what is this?'')]"
        "\<lparr>file_name = ''a.png'',
          file_blob = \<lparr>blob_type = ''image/png'', blob_data = [137, 80]\<rparr>\<rparr>"
        "FormString ''what is this?''"
        "\<lambda>p. Throws \<lparr>message = None\<rparr>"
        "\<lparr>message = None\<rparr>"]
  by simp

section \<open>Properties of the page component\<close>

text \<open>The shared vision call appends one reply, logs one request and leaves the history.\<close>

lemma send_vision_messages:
  "\<exists>reply. messages (send_vision fetch img inp w) = messages w @ [reply] \<and>
           sender reply = AI \<and> imageUrl reply = None"
  by (simp add: send_vision_def ai_message_def Let_def split: attempt.splits)

lemma send_vision_chatHistory: "chatHistory (send_vision fetch img inp w) = chatHistory w"
  by (simp add: send_vision_def Let_def split: attempt.splits)

lemma send_vision_sent:
  "sent (send_vision fetch img inp w) = sent w @ [PostVision (vision_form img inp)]"
  by (simp add: send_vision_def Let_def split: attempt.splits)

text \<open>An empty submission (no text, no image) is no submission: the handler returns at once.\<close>

lemma handleSend_nothing_to_send:
  "input w = [] \<Longrightarrow> image_file w = None \<Longrightarrow> handleSend fetch w = w"
  by (simp add: handleSend_def)

subsection \<open>C5: a text-only send and the provider-format history\<close>

text \<open>
  C5: for every text-only submission (some text typed, no image pending) from a history of
  length \<open>n\<close>, the history after the send is the old one followed by the user turn and
  then the assistant turn (length \<open>n + 2\<close>) when the request resolves, and the old one
  followed by the user turn alone (length \<open>n + 1\<close>) when the request fails. The witness is
  the first turn: from length 1 to 3 on success and to 2 on failure.
\<close>

theorem text_send_history_growth:
  assumes "image_file w = None" and "input w \<noteq> []"
  shows "(fetch (PostChat (chat_body (chatHistory w @ [\<lparr>role = UserRole, content = input w\<rparr>]))) =
            Returns data \<longrightarrow>
            chatHistory (handleSend fetch w) =
              chatHistory w @ [\<lparr>role = UserRole, content = input w\<rparr>,
                               \<lparr>role = Assistant,
                                content = (case result data of None \<Rightarrow> [] | Some t \<Rightarrow> t)\<rparr>] \<and>
            length (chatHistory (handleSend fetch w)) = length (chatHistory w) + 2) \<and>
         (fetch (PostChat (chat_body (chatHistory w @ [\<lparr>role = UserRole, content = input w\<rparr>]))) =
            Throws err \<longrightarrow>
            chatHistory (handleSend fetch w) =
              chatHistory w @ [\<lparr>role = UserRole, content = input w\<rparr>] \<and>
            length (chatHistory (handleSend fetch w)) = length (chatHistory w) + 1)"
  using assms by (auto simp: handleSend_def Let_def or_else_def split: option.splits)

theorem text_send_history_growth_witness:
  "image_file ((initial_page Map.empty)\<lparr>input := ''printer not working''\<rparr>) = None \<and>
   input ((initial_page Map.empty)\<lparr>input := ''printer not working''\<rparr>) \<noteq> [] \<and>
   length (chatHistory ((initial_page Map.empty)\<lparr>input := ''printer not working''\<rparr>)) = 1 \<and>
   chatHistory (handleSend (\<lambda>r. Returns \<lparr>result = Some ''Restart it.'', error = None\<rparr>)
                  ((initial_page Map.empty)\<lparr>input := ''printer not working''\<rparr>)) =
     [system_turn, \<lparr>role = UserRole, content = ''printer not working''\<rparr>,
      \<lparr>role = Assistant, content = ''Restart it.''\<rparr>] \<and>
   length (chatHistory (handleSend (\<lambda>r. Returns \<lparr>result = Some ''Restart it.'', error = None\<rparr>)
                  ((initial_page Map.empty)\<lparr>input := ''printer not working''\<rparr>))) = 3 \<and>
   chatHistory (handleSend (\<lambda>r. Throws \<lparr>message = Some ''Failed to fetch''\<rparr>)
                  ((initial_page Map.empty)\<lparr>input := ''printer not working''\<rparr>)) =
     [system_turn, \<lparr>role = UserRole, content = ''printer not working''\<rparr>] \<and>
   length (chatHistory (handleSend (\<lambda>r. Throws \<lparr>message = Some ''Failed to fetch''\<rparr>)
                  ((initial_page Map.empty)\<lparr>input := ''printer not working''\<rparr>))) = 2"
proof -
  let ?w = "(initial_page Map.empty)\<lparr>input := ''printer not working''\<rparr>"
  have a: "image_file ?w = None" by (simp add: initial_page_def)
  have b: "input ?w \<noteq> []" by simp
  have c: "chatHistory ?w = [system_turn]" by (simp add: initial_page_def)
  show ?thesis
    using a b c
      text_send_history_growth [OF a b,
        of "\<lambda>r. Returns \<lparr>result = Some ''Restart it.'', error = None\<rparr>"
           "\<lparr>result = Some ''Restart it.'', error = None\<rparr>"]
      text_send_history_growth [OF a b,
        of "\<lambda>r. Throws \<lparr>message = Some ''Failed to fetch''\<rparr>" _
           "\<lparr>message = Some ''Failed to fetch''\<rparr>"]
    by simp
qed

subsection \<open>C6: an image send leaves the provider-format history alone\<close>

text \<open>
  C6: for every submission that carries an image (an uploaded file sent with
  \<^verbatim>\<open>handleSend\<close>, or a frame captured from the shared screen), the transcript grows by the
  user's message and then exactly one reply message, whatever the outcome of the request,
  and the provider-format history after the send is the one before it.
\<close>

theorem image_send_frame:
  "(image_file w = Some img \<longrightarrow>
      (\<exists>reply. messages (handleSend fetch w) =
                 messages w @ [\<lparr>sender = User, msg_text = input w,
                                imageUrl = Some (ObjectURL (file_blob img))\<rparr>, reply] \<and>
               sender reply = AI) \<and>
      chatHistory (handleSend fetch w) = chatHistory w) \<and>
   (videoRef w \<noteq> None \<longrightarrow>
      (\<exists>reply. messages (handleCaptureScreenShotFromStream fetch (Some blob) w) =
                 messages w @ [\<lparr>sender = User,
                                msg_text = (if input w = [] then ''(Screenshot from screen share)''
                                            else input w),
                                imageUrl = Some (ObjectURL blob)\<rparr>, reply] \<and>
               sender reply = AI) \<and>
      chatHistory (handleCaptureScreenShotFromStream fetch (Some blob) w) = chatHistory w)"
proof (intro conjI impI)
  assume img: "image_file w = Some img"
  let ?w1 = "w\<lparr>messages := messages w @ [\<lparr>sender = User, msg_text = input w,
                 imageUrl = Some (ObjectURL (file_blob img))\<rparr>], input := [], image_file := None,
                 isLoading := True\<rparr>"
  have eq: "handleSend fetch w = send_vision fetch img (input w) ?w1"
    using img by (simp add: handleSend_def Let_def)
  from send_vision_messages [of fetch img "input w" ?w1]
  show "\<exists>reply. messages (handleSend fetch w) =
                 messages w @ [\<lparr>sender = User, msg_text = input w,
                                imageUrl = Some (ObjectURL (file_blob img))\<rparr>, reply] \<and>
               sender reply = AI"
    unfolding eq by auto
  show "chatHistory (handleSend fetch w) = chatHistory w"
    unfolding eq by (simp add: send_vision_chatHistory)
next
  assume v: "videoRef w \<noteq> None"
  let ?u = "\<lparr>sender = User,
             msg_text = (if input w = [] then ''(Screenshot from screen share)'' else input w),
             imageUrl = Some (ObjectURL blob)\<rparr>"
  let ?w1 = "w\<lparr>isLoading := True, messages := messages w @ [?u]\<rparr>"
  have eq: "handleCaptureScreenShotFromStream fetch (Some blob) w =
              send_vision fetch \<lparr>file_name = ''screenshot.png'', file_blob = blob\<rparr> (input w) ?w1"
    using v by (auto simp: handleCaptureScreenShotFromStream_def Let_def or_else_def)
  from send_vision_messages
    [of fetch "\<lparr>file_name = ''screenshot.png'', file_blob = blob\<rparr>" "input w" ?w1]
  show "\<exists>reply. messages (handleCaptureScreenShotFromStream fetch (Some blob) w) =
                 messages w @ [?u, reply] \<and> sender reply = AI"
    unfolding eq by auto
  show "chatHistory (handleCaptureScreenShotFromStream fetch (Some blob) w) = chatHistory w"
    unfolding eq by (simp add: send_vision_chatHistory)
qed

theorem image_send_frame_witness:
  "image_file ((initial_page Map.empty)
      \<lparr>input := ''what does this error mean?'',
       image_file := Some \<lparr>file_name = ''a.png'',
                           file_blob = \<lparr>blob_type = ''image/png'', blob_data = [137, 80]\<rparr>\<rparr>\<rparr>) =
     Some \<lparr>file_name = ''a.png'',
           file_blob = \<lparr>blob_type = ''image/png'', blob_data = [137, 80]\<rparr>\<rparr> \<and>
   messages (handleSend (\<lambda>r. Returns \<lparr>result = Some ''A driver is missing.'', error = None\<rparr>)
     ((initial_page Map.empty)
        \<lparr>input := ''what does this error mean?'',
         image_file := Some \<lparr>file_name = ''a.png'',
                             file_blob = \<lparr>blob_type = ''image/png'', blob_data = [137, 80]\<rparr>\<rparr>\<rparr>)) =
     [\<lparr>sender = User, msg_text = ''what does this error mean?'',
       imageUrl = Some (ObjectURL \<lparr>blob_type = ''image/png'', blob_data = [137, 80]\<rparr>)\<rparr>,
      \<lparr>sender = AI, msg_text = ''A driver is missing.'', imageUrl = None\<rparr>] \<and>
   chatHistory (handleSend (\<lambda>r. Returns \<lparr>result = Some ''A driver is missing.'', error = None\<rparr>)
     ((initial_page Map.empty)
        \<lparr>input := ''what does this error mean?'',
         image_file := Some \<lparr>file_name = ''a.png'',
                             file_blob = \<lparr>blob_type = ''image/png'', blob_data = [137, 80]\<rparr>\<rparr>\<rparr>)) =
     [system_turn] \<and>
   videoRef ((initial_page Map.empty)\<lparr>videoRef := Some \<lparr>srcObject = None\<rparr>\<rparr>) \<noteq> None \<and>
   chatHistory (handleCaptureScreenShotFromStream (\<lambda>r. Throws \<lparr>message = None\<rparr>)
     (Some \<lparr>blob_type = ''image/png'', blob_data = [137, 80]\<rparr>)
     ((initial_page Map.empty)\<lparr>videoRef := Some \<lparr>srcObject = None\<rparr>\<rparr>)) = [system_turn]"
proof -
  let ?f = "\<lparr>file_name = ''a.png'',
             file_blob = \<lparr>blob_type = ''image/png'', blob_data = [137, 80]\<rparr>\<rparr>"
  let ?w = "(initial_page Map.empty)\<lparr>input := ''what does this error mean?'', image_file := Some ?f\<rparr>"
  let ?fetch = "\<lambda>r :: request. Returns \<lparr>result = Some ''A driver is missing.'', error = None\<rparr>"
  let ?v = "(initial_page Map.empty)\<lparr>videoRef := Some \<lparr>srcObject = None\<rparr>\<rparr>"
  have m: "messages (handleSend ?fetch ?w) =
     [\<lparr>sender = User, msg_text = ''what does this error mean?'',
       imageUrl = Some (ObjectURL \<lparr>blob_type = ''image/png'', blob_data = [137, 80]\<rparr>)\<rparr>,
      \<lparr>sender = AI, msg_text = ''A driver is missing.'', imageUrl = None\<rparr>]"
    by (simp add: handleSend_def send_vision_def initial_page_def Let_def reply_text_def
        or_else_def ai_message_def)
  show ?thesis
    using m
      image_send_frame [of ?w ?f ?fetch]
      image_send_frame [of ?v _ "\<lambda>r. Throws \<lparr>message = None\<rparr>"
                           "\<lparr>blob_type = ''image/png'', blob_data = [137, 80]\<rparr>"]
    by (simp add: initial_page_def)
qed

subsection \<open>C7: clearing the chat, then reloading\<close>

lemma keys_distinct: "messages_key \<noteq> chatHistory_key"
  by (simp add: messages_key_def chatHistory_key_def)

lemma reload_cleared_storage:
  assumes "localStorage w messages_key = None" "localStorage w chatHistory_key = None"
  shows "reload codec w = Returns (initial_page (localStorage w))"
  using assms
  by (simp add: reload_def mount_effect_def restore_messages_def restore_chatHistory_def
      initial_page_def)

text \<open>
  C7: from any state, \<^verbatim>\<open>handleClearChat\<close> leaves an empty transcript and a history that is
  exactly the fixed system turn, and removes both local-storage entries; a reload over that
  storage restores nothing and shows the empty transcript and the one-turn history. The
  render that follows the handler runs the two save effects, which write the cleared
  sequences back under the two keys; where \<^verbatim>\<open>JSON.parse\<close> returns what \<^verbatim>\<open>JSON.stringify\<close>
  was given for these two values, a reload over that storage shows the same.
\<close>

theorem clear_chat_round_trip:
  "messages (handleClearChat w) = [] \<and>
   chatHistory (handleClearChat w) = [system_turn] \<and>
   localStorage (handleClearChat w) messages_key = None \<and>
   localStorage (handleClearChat w) chatHistory_key = None \<and>
   (\<exists>w'. reload codec (handleClearChat w) = Returns w' \<and>
         messages w' = [] \<and> chatHistory w' = [system_turn]) \<and>
   (parse_messages codec (stringify_messages codec []) = Returns [] \<and>
    parse_chatHistory codec (stringify_chatHistory codec [system_turn]) = Returns [system_turn] \<longrightarrow>
      (\<exists>w'. reload codec (save_effects codec (handleClearChat w)) = Returns w' \<and>
            messages w' = [] \<and> chatHistory w' = [system_turn]))"
proof -
  have a: "localStorage (handleClearChat w) messages_key = None"
    by (simp add: handleClearChat_def keys_distinct)
  have b: "localStorage (handleClearChat w) chatHistory_key = None"
    by (simp add: handleClearChat_def)
  have "reload codec (handleClearChat w) =
          Returns (initial_page (localStorage (handleClearChat w)))"
    by (rule reload_cleared_storage [OF a b])
  then have c: "\<exists>w'. reload codec (handleClearChat w) = Returns w' \<and>
         messages w' = [] \<and> chatHistory w' = [system_turn]"
    by (simp add: initial_page_def)
  have d: "messages (handleClearChat w) = []" "chatHistory (handleClearChat w) = [system_turn]"
    by (simp_all add: handleClearChat_def)
  have e: "parse_messages codec (stringify_messages codec []) = Returns [] \<and>
    parse_chatHistory codec (stringify_chatHistory codec [system_turn]) = Returns [system_turn] \<longrightarrow>
      (\<exists>w'. reload codec (save_effects codec (handleClearChat w)) = Returns w' \<and>
            messages w' = [] \<and> chatHistory w' = [system_turn])"
    by (simp add: reload_def save_effects_def save_messages_def save_chatHistory_def
        handleClearChat_def mount_effect_def restore_messages_def restore_chatHistory_def
        initial_page_def keys_distinct)
  from a b c d e show ?thesis by blast
qed

theorem clear_chat_round_trip_witness:
  "parse_messages
     \<lparr>stringify_messages = (\<lambda>ms. ''[]''), stringify_chatHistory = (\<lambda>h. ''[system]''),
      parse_messages = (\<lambda>s. Returns []), parse_chatHistory = (\<lambda>s. Returns [system_turn])\<rparr>
     (stringify_messages
        \<lparr>stringify_messages = (\<lambda>ms. ''[]''), stringify_chatHistory = (\<lambda>h. ''[system]''),
         parse_messages = (\<lambda>s. Returns []), parse_chatHistory = (\<lambda>s. Returns [system_turn])\<rparr>
        []) = Returns [] \<and>
   messages (handleClearChat
     ((initial_page [messages_key \<mapsto> ''[{}]''])
        \<lparr>messages := [\<lparr>sender = User, msg_text = ''hello'', imageUrl = None\<rparr>]\<rparr>)) = [] \<and>
   localStorage (handleClearChat
     ((initial_page [messages_key \<mapsto> ''[{}]''])
        \<lparr>messages := [\<lparr>sender = User, msg_text = ''hello'', imageUrl = None\<rparr>]\<rparr>))
     messages_key = None \<and>
   (\<exists>w'. reload
      \<lparr>stringify_messages = (\<lambda>ms. ''[]''), stringify_chatHistory = (\<lambda>h. ''[system]''),
       parse_messages = (\<lambda>s. Returns []), parse_chatHistory = (\<lambda>s. Returns [system_turn])\<rparr>
      (save_effects
         \<lparr>stringify_messages = (\<lambda>ms. ''[]''), stringify_chatHistory = (\<lambda>h. ''[system]''),
          parse_messages = (\<lambda>s. Returns []), parse_chatHistory = (\<lambda>s. Returns [system_turn])\<rparr>
         (handleClearChat
            ((initial_page [messages_key \<mapsto> ''[{}]''])
               \<lparr>messages := [\<lparr>sender = User, msg_text = ''hello'', imageUrl = None\<rparr>]\<rparr>))) =
        Returns w' \<and>
      messages w' = [] \<and> chatHistory w' = [system_turn])"
  using clear_chat_round_trip
    [of "(initial_page [messages_key \<mapsto> ''[{}]''])
           \<lparr>messages := [\<lparr>sender = User, msg_text = ''hello'', imageUrl = None\<rparr>]\<rparr>"
        "\<lparr>stringify_messages = (\<lambda>ms. ''[]''), stringify_chatHistory = (\<lambda>h. ''[system]''),
          parse_messages = (\<lambda>s. Returns []), parse_chatHistory = (\<lambda>s. Returns [system_turn])\<rparr>"]
  by simp

subsection \<open>C8: the two ways a screen share ends\<close>

text \<open>
  Sharing is offered only while \<^verbatim>\<open>isScreenSharing\<close> is false. Every handler keeps the
  flag and \<^verbatim>\<open>screenStream\<close> in step, so in a state where sharing is offered no stream is
  held.
\<close>

lemma stop_resets_sharing:
  "screenStream (handleStopScreenShare seen w) = None \<and>
   \<not> isScreenSharing (handleStopScreenShare seen w)"
  by (simp add: handleStopScreenShare_def Let_def)

lemma start_sets_sharing:
  "screenStream (handleStartScreenShare (Returns (sid, n)) w) = Some sid \<and>
   isScreenSharing (handleStartScreenShare (Returns (sid, n)) w)"
  by (simp add: handleStartScreenShare_def Let_def)

lemma initial_consistent: "sharing_consistent (initial_page storage)"
  by (simp add: sharing_consistent_def initial_page_def)

lemma stop_consistent: "sharing_consistent (handleStopScreenShare seen w)"
  by (simp add: sharing_consistent_def stop_resets_sharing)

lemma start_consistent:
  "sharing_consistent w \<Longrightarrow> sharing_consistent (handleStartScreenShare outcome w)"
proof (cases outcome)
  case (Throws err)
  assume "sharing_consistent w"
  with Throws show ?thesis by (simp add: handleStartScreenShare_def)
next
  case (Returns granted)
  obtain sid n where "granted = (sid, n)" by (cases granted)
  with Returns show ?thesis by (simp add: sharing_consistent_def start_sets_sharing)
qed

lemma listeners_consistent:
  "sharing_consistent w \<Longrightarrow> sharing_consistent (fold handleStopScreenShare ls w)"
proof (induction ls arbitrary: w)
  case Nil
  then show ?case by simp
next
  case (Cons l ls)
  have "sharing_consistent (handleStopScreenShare l w)" by (rule stop_consistent)
  then show ?case using Cons.IH by simp
qed

lemma stream_ended_consistent:
  "sharing_consistent w \<Longrightarrow> sharing_consistent (stream_ended sid w)"
proof (cases "streams w sid")
  case None
  assume "sharing_consistent w"
  with None show ?thesis by (simp add: stream_ended_def)
next
  case (Some st)
  assume "sharing_consistent w"
  then have "sharing_consistent
      (w\<lparr>streams := (streams w)(sid \<mapsto> st\<lparr>tracks := map agent_end (tracks st)\<rparr>)\<rparr>)"
    by (simp add: sharing_consistent_def)
  then show ?thesis using Some by (simp add: stream_ended_def listeners_consistent)
qed

lemma send_vision_sharing:
  "screenStream (send_vision fetch img inp w) = screenStream w \<and>
   isScreenSharing (send_vision fetch img inp w) = isScreenSharing w"
  by (simp add: send_vision_def Let_def split: attempt.splits)

lemma handleSend_consistent:
  "sharing_consistent w \<Longrightarrow> sharing_consistent (handleSend fetch w)"
  by (simp add: sharing_consistent_def handleSend_def Let_def send_vision_sharing
      split: option.splits attempt.splits)

lemma capture_consistent:
  "sharing_consistent w \<Longrightarrow>
   sharing_consistent (handleCaptureScreenShotFromStream fetch frame w)"
  by (simp add: sharing_consistent_def handleCaptureScreenShotFromStream_def Let_def
      send_vision_sharing split: option.splits)

lemma clear_consistent: "sharing_consistent w \<Longrightarrow> sharing_consistent (handleClearChat w)"
  by (simp add: sharing_consistent_def handleClearChat_def)

lemma image_change_consistent:
  "sharing_consistent w \<Longrightarrow> sharing_consistent (handleImageChange files w)"
  by (simp add: sharing_consistent_def handleImageChange_def split: option.splits list.splits)

lemma not_sharing_no_stream:
  "sharing_consistent w \<Longrightarrow> \<not> isScreenSharing w \<Longrightarrow> screenStream w = None"
  by (simp add: sharing_consistent_def)

text \<open>
  C8: take a share started from a state that is not sharing, with a stream of at least one
  track. Ending it with the "Stop Sharing" button and ending it from the browser's own
  control leave the same sharing state: no stream, \<^verbatim>\<open>isScreenSharing\<close> false, the preview
  detached; the two resulting states are equal in everything but the heap of stream
  objects. On both paths every track of the stream ends up ended and released exactly
  once. On the explicit path the page's one \<^verbatim>\<open>stop()\<close> call releases it. On the signalled
  path the user agent has released it before the listener runs, and the listener, which
  still sees the \<^verbatim>\<open>screenStream\<close> of the render that started the share (null), calls
  \<^verbatim>\<open>stop()\<close> on no track. A signal arriving after an explicit stop changes nothing.
\<close>

theorem screen_share_stop_paths:
  assumes "screenStream w = None" and "0 < n"
  shows "let sharing = handleStartScreenShare (Returns (sid, n)) w;
             explicit = click_stop_sharing sharing;
             signalled = stream_ended sid sharing;
             both = stream_ended sid explicit
         in
           screenStream sharing = Some sid \<and> isScreenSharing sharing \<and>
           screenStream explicit = None \<and> \<not> isScreenSharing explicit \<and>
           videoRef explicit = map_option (\<lambda>v. v\<lparr>srcObject := None\<rparr>) (videoRef w) \<and>
           screenStream signalled = screenStream explicit \<and>
           isScreenSharing signalled = isScreenSharing explicit \<and>
           videoRef signalled = videoRef explicit \<and>
           signalled\<lparr>streams := streams explicit\<rparr> = explicit \<and>
           (\<exists>st. streams explicit sid = Some st \<and> length (tracks st) = n \<and>
                 (\<forall>t \<in> set (tracks st).
                    readyState t = Ended \<and> released t = 1 \<and> stop_calls t = 1)) \<and>
           (\<exists>st. streams signalled sid = Some st \<and> length (tracks st) = n \<and>
                 (\<forall>t \<in> set (tracks st).
                    readyState t = Ended \<and> released t = 1 \<and> stop_calls t = 0)) \<and>
           (\<exists>st. streams both sid = Some st \<and> length (tracks st) = n \<and>
                 (\<forall>t \<in> set (tracks st).
                    readyState t = Ended \<and> released t = 1 \<and> stop_calls t = 1))"
  using assms
  by (auto simp: Let_def handleStartScreenShare_def click_stop_sharing_def stream_ended_def
      handleStopScreenShare_def stop_all_tracks_def live_track_def stop_track_def agent_end_def
      option.map_comp comp_def)

theorem screen_share_stop_paths_witness:
  "screenStream (initial_page Map.empty) = None \<and> (0::nat) < 1 \<and>
   map_option tracks (streams (click_stop_sharing
       (handleStartScreenShare (Returns (7, 1)) (initial_page Map.empty))) 7) =
     Some [\<lparr>readyState = Ended, stop_calls = 1, released = 1\<rparr>] \<and>
   map_option tracks (streams (stream_ended 7
       (handleStartScreenShare (Returns (7, 1)) (initial_page Map.empty))) 7) =
     Some [\<lparr>readyState = Ended, stop_calls = 0, released = 1\<rparr>] \<and>
   screenStream (stream_ended 7
       (handleStartScreenShare (Returns (7, 1)) (initial_page Map.empty))) = None \<and>
   \<not> isScreenSharing (stream_ended 7
       (handleStartScreenShare (Returns (7, 1)) (initial_page Map.empty)))"
proof -
  have a: "screenStream (initial_page Map.empty) = None"
    by (rule not_sharing_no_stream [OF initial_consistent]) (simp add: initial_page_def)
  have b: "(0::nat) < 1" by simp
  have ex: "map_option tracks (streams (click_stop_sharing
       (handleStartScreenShare (Returns (7, 1)) (initial_page Map.empty))) 7) =
     Some [\<lparr>readyState = Ended, stop_calls = 1, released = 1\<rparr>]"
    by (simp add: click_stop_sharing_def handleStartScreenShare_def handleStopScreenShare_def
        stop_all_tracks_def initial_page_def live_track_def stop_track_def Let_def)
  have si: "map_option tracks (streams (stream_ended 7
       (handleStartScreenShare (Returns (7, 1)) (initial_page Map.empty))) 7) =
     Some [\<lparr>readyState = Ended, stop_calls = 0, released = 1\<rparr>]"
    by (simp add: stream_ended_def handleStartScreenShare_def handleStopScreenShare_def
        initial_page_def live_track_def agent_end_def Let_def)
  show ?thesis
    using a b ex si screen_share_stop_paths [OF a b, of 7]
    by (simp add: Let_def)
qed

subsection \<open>C9: the prompt the page sends with an image\<close>

text \<open>
  C9: every image submission of the page, from \<^verbatim>\<open>handleSend\<close> with a pending image or from
  the screenshot capture, posts one multipart body to the vision route, whose \<^verbatim>\<open>image\<close>
  field is the file and whose \<^verbatim>\<open>prompt\<close> field is the typed text, or the fixed
  \<^verbatim>\<open>"Please help me with this issue."\<close> when nothing was typed. The prompt is never empty,
  so the vision route never answers such a body with its "No prompt provided." response,
  whatever the provider does.
\<close>

theorem ui_vision_prompt_nonempty:
  "(image_file w = Some img \<longrightarrow>
      sent (handleSend fetch w) = sent w @ [PostVision (vision_form img (input w))]) \<and>
   (videoRef w \<noteq> None \<longrightarrow>
      sent (handleCaptureScreenShotFromStream fetch (Some blob) w) =
        sent w @ [PostVision (vision_form \<lparr>file_name = ''screenshot.png'', file_blob = blob\<rparr>
                                (input w))]) \<and>
   map_of (vision_form f inp) ''image'' = Some (FormFile f) \<and>
   map_of (vision_form f inp) ''prompt'' =
     Some (FormString (if inp = [] then ''Please help me with this issue.'' else inp)) \<and>
   \<not> no_prompt (map_of (vision_form f inp) ''prompt'') \<and>
   fst (vision_POST create (Returns (vision_form f inp))) \<noteq>
     \<lparr>status = 400, body = ErrorJson ''No prompt provided.''\<rparr>"
proof -
  have a: "image_file w = Some img \<longrightarrow>
      sent (handleSend fetch w) = sent w @ [PostVision (vision_form img (input w))]"
    by (simp add: handleSend_def Let_def send_vision_sent)
  have b: "videoRef w \<noteq> None \<longrightarrow>
      sent (handleCaptureScreenShotFromStream fetch (Some blob) w) =
        sent w @ [PostVision (vision_form \<lparr>file_name = ''screenshot.png'', file_blob = blob\<rparr>
                                (input w))]"
    by (auto simp: handleCaptureScreenShotFromStream_def Let_def send_vision_sent)
  have c: "map_of (vision_form f inp) ''image'' = Some (FormFile f)"
    by (simp add: vision_form_def)
  have d: "map_of (vision_form f inp) ''prompt'' =
     Some (FormString (if inp = [] then ''Please help me with this issue.'' else inp))"
    by (simp add: vision_form_def or_else_def default_prompt_def)
  have e: "\<not> no_prompt (map_of (vision_form f inp) ''prompt'')"
    unfolding d by simp
  have g: "fst (vision_POST create (Returns (vision_form f inp))) \<noteq>
     \<lparr>status = 400, body = ErrorJson ''No prompt provided.''\<rparr>"
    using e by (simp add: vision_POST_def c d caught_def split: attempt.splits)
  from a b c d e g show ?thesis by blast
qed

theorem ui_vision_prompt_nonempty_witness:
  "image_file ((initial_page Map.empty)
      \<lparr>image_file := Some \<lparr>file_name = ''a.png'',
                           file_blob = \<lparr>blob_type = ''image/png'', blob_data = [137, 80]\<rparr>\<rparr>\<rparr>) =
     Some \<lparr>file_name = ''a.png'',
           file_blob = \<lparr>blob_type = ''image/png'', blob_data = [137, 80]\<rparr>\<rparr> \<and>
   sent (handleSend (\<lambda>r. Throws \<lparr>message = None\<rparr>)
     ((initial_page Map.empty)
        \<lparr>image_file := Some \<lparr>file_name = ''a.png'',
                             file_blob = \<lparr>blob_type = ''image/png'', blob_data = [137, 80]\<rparr>\<rparr>\<rparr>)) =
     [PostVision
        [(''image'',
          FormFile \<lparr>file_name = ''a.png'',
                    file_blob = \<lparr>blob_type = ''image/png'', blob_data = [137, 80]\<rparr>\<rparr>),
         (''prompt'', FormString ''Please help me with this issue.'')]] \<and>
   videoRef ((initial_page Map.empty)\<lparr>videoRef := Some \<lparr>srcObject = None\<rparr>\<rparr>) \<noteq> None \<and>
   sent (handleCaptureScreenShotFromStream (\<lambda>r. Throws \<lparr>message = None\<rparr>)
     (Some \<lparr>blob_type = ''image/png'', blob_data = [137, 80]\<rparr>)
     ((initial_page Map.empty)\<lparr>videoRef := Some \<lparr>srcObject = None\<rparr>\<rparr>)) =
     [PostVision
        [(''image'',
          FormFile \<lparr>file_name = ''screenshot.png'',
                    file_blob = \<lparr>blob_type = ''image/png'', blob_data = [137, 80]\<rparr>\<rparr>),
         (''prompt'', FormString ''Please help me with this issue.'')]] \<and>
   fst (vision_POST (\<lambda>p. Returns (Completion []))
      (Returns (vision_form
         \<lparr>file_name = ''a.png'',
          file_blob = \<lparr>blob_type = ''image/png'', blob_data = [137, 80]\<rparr>\<rparr> []))) \<noteq>
     \<lparr>status = 400, body = ErrorJson ''No prompt provided.''\<rparr>"
proof -
  let ?f = "\<lparr>file_name = ''a.png'',
             file_blob = \<lparr>blob_type = ''image/png'', blob_data = [137, 80]\<rparr>\<rparr>"
  have form: "vision_form g [] =
      [(''image'', FormFile g), (''prompt'', FormString ''Please help me with this issue.'')]" for g
    by (simp add: vision_form_def or_else_def default_prompt_def)
  show ?thesis
    using ui_vision_prompt_nonempty
      [of "(initial_page Map.empty)\<lparr>image_file := Some ?f\<rparr>" ?f
          "\<lambda>r. Throws \<lparr>message = None\<rparr>"
          "\<lparr>blob_type = ''image/png'', blob_data = [137, 80]\<rparr>" ?f "[]"
          "\<lambda>p. Returns (Completion [])"]
      ui_vision_prompt_nonempty
      [of "(initial_page Map.empty)\<lparr>videoRef := Some \<lparr>srcObject = None\<rparr>\<rparr>" ?f
          "\<lambda>r. Throws \<lparr>message = None\<rparr>"
          "\<lparr>blob_type = ''image/png'', blob_data = [137, 80]\<rparr>" ?f "[]"
          "\<lambda>p. Returns (Completion [])"]
    by (simp add: initial_page_def form)
qed

subsection \<open>C10: a reply without a result\<close>

text \<open>
  C10, as stated, says that after a text-only send whose response body lacks \<^verbatim>\<open>result\<close> the
  history has grown by the user turn and an assistant turn of empty content, and the text
  displayed is the response's \<^verbatim>\<open>error\<close> string. A body that lacks \<^verbatim>\<open>result\<close> need not have
  a usable \<^verbatim>\<open>error\<close>: for the body \<^verbatim>\<open>{}\<close> the page displays its fixed fallback text, which
  is no string of the response.
\<close>

theorem failed_reply_without_error_shows_fallback:
  "result \<lparr>result = None, error = None\<rparr> = None \<and>
   map msg_text (messages (handleSend (\<lambda>r. Returns \<lparr>result = None, error = None\<rparr>)
                   ((initial_page Map.empty)\<lparr>input := ''hi''\<rparr>))) =
     [''hi'', ''Sorry, I couldn't generate a response.''] \<and>
   error \<lparr>result = None, error = None\<rparr> \<noteq> Some ''Sorry, I couldn't generate a response.''"
  by (simp add: handleSend_def initial_page_def Let_def reply_text_def or_else_def
      ai_message_def chat_fallback_def)

text \<open>
  C10, amended: for every text-only send whose request resolves with a body that is a JSON
  object (its \<^verbatim>\<open>result\<close> and \<^verbatim>\<open>error\<close> strings or missing) whose \<^verbatim>\<open>result\<close> is missing or
  empty, the page still appends an assistant turn of empty content after the user turn, so
  the history grows from length \<open>n\<close> to \<open>n + 2\<close>; the text displayed is the response's
  \<^verbatim>\<open>error\<close> string when that is present and not empty, and the fixed text
  \<^verbatim>\<open>"Sorry, I couldn't generate a response."\<close> otherwise. A body that is no object (JSON
  \<^verbatim>\<open>null\<close>) is left out: there reading \<^verbatim>\<open>data.result\<close> throws and the \<^verbatim>\<open>catch\<close> runs. The
  statement ranges over \<open>reply_json\<close>, which is exactly the object bodies.
\<close>

theorem failed_reply_history_growth:
  assumes "image_file w = None" and "input w \<noteq> []"
    and "fetch (PostChat (chat_body (chatHistory w @ [\<lparr>role = UserRole, content = input w\<rparr>]))) =
           Returns data"
    and "result data = None \<or> result data = Some []"
  shows "chatHistory (handleSend fetch w) =
           chatHistory w @ [\<lparr>role = UserRole, content = input w\<rparr>,
                            \<lparr>role = Assistant, content = []\<rparr>] \<and>
         length (chatHistory (handleSend fetch w)) = length (chatHistory w) + 2 \<and>
         messages (handleSend fetch w) =
           messages w @
             [\<lparr>sender = User, msg_text = input w, imageUrl = None\<rparr>,
              \<lparr>sender = AI,
               msg_text =
                 (case error data of
                    None \<Rightarrow> ''Sorry, I couldn't generate a response.''
                  | Some e \<Rightarrow> if e = [] then ''Sorry, I couldn't generate a response.'' else e),
               imageUrl = None\<rparr>]"
  using assms
  by (auto simp: handleSend_def Let_def reply_text_def or_else_def ai_message_def chat_fallback_def
      split: option.splits)

theorem failed_reply_history_growth_witness:
  "image_file ((initial_page Map.empty)\<lparr>input := ''printer not working''\<rparr>) = None \<and>
   input ((initial_page Map.empty)\<lparr>input := ''printer not working''\<rparr>) \<noteq> [] \<and>
   result \<lparr>result = None, error = Some ''Unknown error''\<rparr> = None \<and>
   chatHistory (handleSend (\<lambda>r. Returns \<lparr>result = None, error = Some ''Unknown error''\<rparr>)
                  ((initial_page Map.empty)\<lparr>input := ''printer not working''\<rparr>)) =
     [system_turn, \<lparr>role = UserRole, content = ''printer not working''\<rparr>,
      \<lparr>role = Assistant, content = []\<rparr>] \<and>
   messages (handleSend (\<lambda>r. Returns \<lparr>result = None, error = Some ''Unknown error''\<rparr>)
                  ((initial_page Map.empty)\<lparr>input := ''printer not working''\<rparr>)) =
     [\<lparr>sender = User, msg_text = ''printer not working'', imageUrl = None\<rparr>,
      \<lparr>sender = AI, msg_text = ''Unknown error'', imageUrl = None\<rparr>]"
proof -
  let ?w = "(initial_page Map.empty)\<lparr>input := ''printer not working''\<rparr>"
  let ?d = "\<lparr>result = None, error = Some ''Unknown error''\<rparr>"
  have a: "image_file ?w = None" by (simp add: initial_page_def)
  have b: "input ?w \<noteq> []" by simp
  have c: "(\<lambda>r. Returns ?d)
             (PostChat (chat_body (chatHistory ?w @ [\<lparr>role = UserRole, content = input ?w\<rparr>]))) =
           Returns ?d"
    by simp
  have d: "result ?d = None \<or> result ?d = Some []" by simp
  show ?thesis
    using a b failed_reply_history_growth [OF a b c d]
    by (simp add: initial_page_def)
qed

end
